theory Spec2Isabelle
  imports Main
begin

section \<open>Python values\<close>

text \<open>
  The values that reach \<open>context.py\<close>: what \<open>json.load\<close> produces, the strings of the
  process environment, and the dictionaries the module builds. A dictionary carries the
  class of the object that holds it, because attribute access differs between a plain
  \<open>dict\<close> and the subclasses of the module. Its entries are an association list in
  insertion order, looked up with \<open>map_of\<close>.
\<close>

datatype dict_class = Cdict | CDotDict | CNestedDict | CEvent

datatype pyval =
    PNone
  | PBool bool
  | PInt int
  | PFloat string
  | PStr string
  | PList "pyval list"
  | PDict dict_class "(string \<times> pyval) list"
  | PBuiltin string

text \<open>
  \<open>PFloat\<close> keeps the literal of a JSON number with a fraction or an exponent; the module
  never computes with it. \<open>PBuiltin n\<close> is the attribute \<open>n\<close> that the interpreter itself
  supplies on an object (a bound method such as \<open>keys\<close>, or a special attribute).
\<close>

datatype error =
    ConfigError       \<comment> \<open>the \<open>ValueError\<close> raised on line 134\<close>
  | UnpackError       \<comment> \<open>the \<open>ValueError\<close> of the tuple unpacking on line 126\<close>
  | KeyError string
  | TypeError
  | AttributeError
  | JSONDecodeError
  | OSError

type_synonym items = "(string \<times> pyval) list"

subsection \<open>The operations of \<open>dict\<close> that the module uses\<close>

definition dict_contains :: "items \<Rightarrow> string \<Rightarrow> bool" where
  "dict_contains d k = (k \<in> fst ` set d)"

definition dict_get :: "items \<Rightarrow> string \<Rightarrow> pyval \<Rightarrow> pyval" where
  "dict_get d k dflt = (case map_of d k of None \<Rightarrow> dflt | Some v \<Rightarrow> v)"

fun dict_setitem :: "items \<Rightarrow> string \<Rightarrow> pyval \<Rightarrow> items" where
  "dict_setitem [] k v = [(k, v)]"
| "dict_setitem (p # ps) k v = (if fst p = k then (k, v) # ps else p # dict_setitem ps k v)"

definition dict_delitem :: "items \<Rightarrow> string \<Rightarrow> items" where
  "dict_delitem d k = filter (\<lambda>p. fst p \<noteq> k) d"

section \<open>DotDict\<close>

text \<open>
  Modelled from the spec: \<open>NestedDict\<close>, the class in which \<open>DotDict.__getattr__\<close> wraps a
  nested dictionary and from which \<open>Event\<close> derives, is named by the source and defined
  nowhere in it. The spec describes the wrapping as "the same dotted-access behavior", so
  an object of class \<open>CNestedDict\<close> is a dictionary with the three methods of \<open>DotDict\<close>,
  built from the entries of the dictionary it is given.
\<close>

definition NestedDict :: "items \<Rightarrow> pyval" where
  "NestedDict d = PDict CNestedDict d"

definition DotDict_getattr :: "items \<Rightarrow> string \<Rightarrow> pyval" where
  "DotDict_getattr self attr =
     (let value = dict_get self attr PNone in
      case value of PDict c d \<Rightarrow> NestedDict d | _ \<Rightarrow> value)"

definition DotDict_setattr :: "items \<Rightarrow> string \<Rightarrow> pyval \<Rightarrow> items" where
  "DotDict_setattr self key value = dict_setitem self key value"

definition DotDict_delattr :: "items \<Rightarrow> string \<Rightarrow> items" where
  "DotDict_delattr self item = (if dict_contains self item then dict_delitem self item else self)"

subsection \<open>Reading an attribute\<close>

text \<open>
  Python calls \<open>__getattr__\<close> only after the normal lookup has failed. The normal lookup
  finds the attributes of the class and of its bases: the members of \<open>dict\<close> (as listed by
  \<open>dir(dict)\<close> in CPython 3.11), the members every subclass instance has, and, for
  \<open>Event\<close>, the fields that the class declares with a default on lines 26 to 33 and the
  \<open>__annotations__\<close> that these declarations give the class. The instance dictionary of a
  \<open>DotDict\<close> stays empty, since \<open>__setattr__\<close> stores into the mapping.
\<close>

definition dict_attrs :: "string list" where
  "dict_attrs =
     [''__class__'', ''__class_getitem__'', ''__contains__'', ''__delattr__'',
      ''__delitem__'', ''__dir__'', ''__doc__'', ''__eq__'', ''__format__'', ''__ge__'',
      ''__getattribute__'', ''__getitem__'', ''__getstate__'', ''__gt__'', ''__hash__'',
      ''__init__'', ''__init_subclass__'', ''__ior__'', ''__iter__'', ''__le__'',
      ''__len__'', ''__lt__'', ''__ne__'', ''__new__'', ''__or__'', ''__reduce__'',
      ''__reduce_ex__'', ''__repr__'', ''__reversed__'', ''__ror__'', ''__setattr__'',
      ''__setitem__'', ''__sizeof__'', ''__str__'', ''__subclasshook__'', ''clear'',
      ''copy'', ''fromkeys'', ''get'', ''items'', ''keys'', ''pop'', ''popitem'',
      ''setdefault'', ''update'', ''values'']"

definition subclass_attrs :: "string list" where
  "subclass_attrs = [''__getattr__'', ''__dict__'', ''__module__'', ''__weakref__'']"

text \<open>
  What the normal lookup returns for such a name. \<open>dict\<close> sets \<open>__hash__\<close> to \<open>None\<close>,
  \<open>__weakref__\<close> is \<open>None\<close> on an object that has no weak reference, and \<open>__dict__\<close> is
  the empty instance dictionary; every other member is kept as the token \<open>PBuiltin\<close>.
\<close>

definition builtin_value :: "string \<Rightarrow> pyval" where
  "builtin_value k =
     (if k = ''__hash__'' \<or> k = ''__weakref__'' then PNone
      else if k = ''__dict__'' then PDict Cdict []
      else PBuiltin k)"

fun class_fields :: "dict_class \<Rightarrow> items" where
  "class_fields CEvent =
     [(''owner'', PStr ''''), (''repo'', PStr ''''), (''number'', PInt 0),
      (''__annotations__'', PBuiltin ''__annotations__'')]"
| "class_fields c = []"

definition normal_lookup :: "dict_class \<Rightarrow> string \<Rightarrow> pyval option" where
  "normal_lookup c k =
     (case map_of (class_fields c) k of
        Some v \<Rightarrow> Some v
      | None \<Rightarrow>
          if k \<in> set dict_attrs then Some (builtin_value k)
          else if c \<noteq> Cdict \<and> k \<in> set subclass_attrs then Some (builtin_value k)
          else None)"

text \<open>
  \<open>obj_getattr v k\<close> is the expression \<open>v.k\<close>. For a value that is not a dictionary it is
  meant for names that are no attribute of the value's type (the chained reads of the
  claims use \<open>y\<close> and \<open>number\<close>), where Python raises \<open>AttributeError\<close>.
\<close>

fun obj_getattr :: "pyval \<Rightarrow> string \<Rightarrow> error + pyval" where
  "obj_getattr (PDict c d) k =
     (case normal_lookup c k of
        Some v \<Rightarrow> Inr v
      | None \<Rightarrow> if c = Cdict then Inl AttributeError else Inr (DotDict_getattr d k))"
| "obj_getattr v k = Inl AttributeError"

text \<open>\<open>v.k1.k2\<close>: the second read is made on the result of the first.\<close>

definition obj_getattr2 :: "pyval \<Rightarrow> string \<Rightarrow> string \<Rightarrow> error + pyval" where
  "obj_getattr2 v k1 k2 =
     (case obj_getattr v k1 of Inl e \<Rightarrow> Inl e | Inr w \<Rightarrow> obj_getattr w k2)"

text \<open>\<open>v.k = x\<close> on a \<open>DotDict\<close>: \<open>__setattr__\<close> is called for every name.\<close>

definition obj_setattr :: "items \<Rightarrow> string \<Rightarrow> pyval \<Rightarrow> pyval" where
  "obj_setattr d k x = PDict CDotDict (DotDict_setattr d k x)"

definition reserved :: "string \<Rightarrow> bool" where
  "reserved k = (k \<in> set dict_attrs \<or> k \<in> set subclass_attrs)"

section \<open>Context\<close>

text \<open>
  The process environment is a partial map from names to strings. The file system gives,
  for a path, nothing when the path does not exist, the decoded text of the file when
  \<open>open\<close> and the read succeed, and the error raised otherwise. \<open>json.load\<close> belongs to
  the standard library: the model takes it as a function from the text to the parsed
  value, with no value when the text is not valid JSON.
\<close>

type_synonym environ = "string \<Rightarrow> string option"
type_synonym filesystem = "string \<Rightarrow> (error + string) option"
type_synonym json_load = "string \<Rightarrow> pyval option"

definition on_ok :: "error + 'a \<Rightarrow> ('a \<Rightarrow> error + 'b) \<Rightarrow> error + 'b" where
  "on_ok m f = (case m of Inl e \<Rightarrow> Inl e | Inr x \<Rightarrow> f x)"

subsection \<open>The class and its instances\<close>

text \<open>
  The fields declared on lines 40 to 83 are attributes of the class, each with its
  default. An instance is its own dictionary \<open>__dict__\<close>, empty when the object is
  created; reading an attribute looks there first, then at the fields of the class, then
  at the two methods. The properties \<open>issue\<close> and \<open>repo\<close> are the functions further down.
\<close>

definition Context_fields :: items where
  "Context_fields =
     [(''payload'', PDict Cdict []),
      (''event_name'', PStr []),
      (''sha'', PStr []),
      (''ref'', PStr []),
      (''workflow'', PStr []),
      (''action'', PStr []),
      (''actor'', PStr []),
      (''job'', PStr []),
      (''run_attempt'', PInt 0),
      (''run_number'', PInt 0),
      (''run_id'', PInt 0),
      (''api_url'', PStr ''https://api.github.com''),
      (''server_url'', PStr ''https://github.com''),
      (''graphql_url'', PStr ''https://api.github.com/graphql'')]"

definition Context_methods :: "string list" where
  "Context_methods = [''__init__'', ''_get_payload'']"

definition Context_new :: items where
  "Context_new = []"

definition Context_getattr :: "items \<Rightarrow> string \<Rightarrow> error + pyval" where
  "Context_getattr self field =
     (case map_of self field of
        Some v \<Rightarrow> Inr v
      | None \<Rightarrow>
          (case map_of Context_fields field of
             Some v \<Rightarrow> Inr v
           | None \<Rightarrow>
               if field \<in> set Context_methods then Inr (PBuiltin field)
               else Inl AttributeError))"

definition Context_setattr :: "items \<Rightarrow> string \<Rightarrow> pyval \<Rightarrow> items" where
  "Context_setattr self field v = dict_setitem self field v"

fun callable :: "pyval \<Rightarrow> bool" where
  "callable (PBuiltin n) = True"
| "callable v = False"

definition startswith :: "string \<Rightarrow> string \<Rightarrow> bool" where
  "startswith s p = (take (length p) s = p)"

definition upper_char :: "char \<Rightarrow> char" where
  "upper_char c =
     (case map_of (zip ''abcdefghijklmnopqrstuvwxyz'' ''ABCDEFGHIJKLMNOPQRSTUVWXYZ'') c of
        Some u \<Rightarrow> u
      | None \<Rightarrow> c)"

definition upper :: "string \<Rightarrow> string" where
  "upper s = map upper_char s"

definition os_getenv :: "environ \<Rightarrow> string \<Rightarrow> pyval \<Rightarrow> pyval" where
  "os_getenv env name dflt = (case env name of Some s \<Rightarrow> PStr s | None \<Rightarrow> dflt)"

subsection \<open>Construction\<close>

text \<open>
  \<open>get_payload\<close> is \<open>Context._get_payload\<close> (an Isabelle name cannot start with an
  underscore).
\<close>

definition get_payload :: "environ \<Rightarrow> filesystem \<Rightarrow> json_load \<Rightarrow> error + pyval" where
  "get_payload env fs load =
     (case env ''GITHUB_EVENT_PATH'' of
        None \<Rightarrow> Inr (PDict Cdict [])
      | Some event_path \<Rightarrow>
          if event_path \<noteq> [] \<and> fs event_path \<noteq> None then
            (case fs event_path of
               Some (Inr f) \<Rightarrow>
                 (case load f of Some v \<Rightarrow> Inr v | None \<Rightarrow> Inl JSONDecodeError)
             | Some (Inl e) \<Rightarrow> Inl e
             | None \<Rightarrow> Inr (PDict Cdict []))
          else Inr (PDict Cdict []))"

text \<open>
  The loop of \<open>__init__\<close>, over the keys that \<open>self.__dict__\<close> has when the loop starts.
  Assigning to a key that is already there does not change the set of keys.
\<close>

fun init_loop :: "environ \<Rightarrow> string list \<Rightarrow> items \<Rightarrow> error + items" where
  "init_loop env [] self = Inr self"
| "init_loop env (field # rest) self =
     (if startswith field ''_'' then init_loop env rest self
      else
        (case Context_getattr self field of
           Inl e \<Rightarrow> Inl e
         | Inr a \<Rightarrow>
             if callable a then init_loop env rest self
             else
               (let env_var = ''GITHUB_'' @ upper field;
                    default_value = a
                in init_loop env rest
                     (Context_setattr self field (os_getenv env env_var default_value)))))"

definition Context_init :: "environ \<Rightarrow> filesystem \<Rightarrow> json_load \<Rightarrow> error + items" where
  "Context_init env fs load =
     (let self = Context_new in
      on_ok (init_loop env (map fst self) self) (\<lambda>self.
      on_ok (get_payload env fs load) (\<lambda>payload.
      Inr (Context_setattr self ''payload'' payload))))"

subsection \<open>Operations on the payload\<close>

text \<open>
  \<open>v.get(k, dflt)\<close>, \<open>v[k]\<close> and \<open>k in v\<close> for a string \<open>k\<close> and any value \<open>v\<close> that
  \<open>json.load\<close> can return. A list, a string, a number, a boolean and \<open>None\<close> have no
  method \<open>get\<close>; a list and a string are indexed by integers only; \<open>in\<close> tests the
  elements of a list and the substrings of a string.
\<close>

fun py_get :: "pyval \<Rightarrow> string \<Rightarrow> pyval \<Rightarrow> error + pyval" where
  "py_get (PDict c d) k dflt = Inr (dict_get d k dflt)"
| "py_get v k dflt = Inl AttributeError"

fun py_getitem :: "pyval \<Rightarrow> string \<Rightarrow> error + pyval" where
  "py_getitem (PDict c d) k = (case map_of d k of Some v \<Rightarrow> Inr v | None \<Rightarrow> Inl (KeyError k))"
| "py_getitem v k = Inl TypeError"

fun substring :: "string \<Rightarrow> string \<Rightarrow> bool" where
  "substring k [] = (k = [])"
| "substring k (c # s) = (take (length k) (c # s) = k \<or> substring k s)"

fun py_in :: "string \<Rightarrow> pyval \<Rightarrow> error + bool" where
  "py_in k (PDict c d) = Inr (dict_contains d k)"
| "py_in k (PList xs) = Inr (PStr k \<in> set xs)"
| "py_in k (PStr s) = Inr (substring k s)"
| "py_in k v = Inl TypeError"

text \<open>\<open>s.split(sep)\<close> for a separator of one character.\<close>

fun split :: "string \<Rightarrow> char \<Rightarrow> string list" where
  "split [] sep = [[]]"
| "split (c # s) sep =
     (if c = sep then [] # split s sep
      else (case split s sep of w # ws \<Rightarrow> (c # w) # ws | [] \<Rightarrow> [[c]]))"

subsection \<open>The properties \<open>repo\<close> and \<open>issue\<close>\<close>

text \<open>The \<open>elif\<close> and \<open>else\<close> branches of \<open>repo\<close>, lines 128 to 134.\<close>

definition repo_from_payload :: "items \<Rightarrow> error + items" where
  "repo_from_payload self =
     on_ok (Context_getattr self ''payload'') (\<lambda>payload.
     on_ok (py_in ''repository'' payload) (\<lambda>present.
       if present then
         on_ok (py_getitem payload ''repository'') (\<lambda>r1.
         on_ok (py_getitem r1 ''owner'') (\<lambda>ow.
         on_ok (py_getitem ow ''login'') (\<lambda>login.
         on_ok (py_getitem payload ''repository'') (\<lambda>r2.
         on_ok (py_getitem r2 ''name'') (\<lambda>name.
         Inr [(''owner'', login), (''repo'', name)])))))
       else Inl ConfigError))"

definition repo :: "environ \<Rightarrow> items \<Rightarrow> error + items" where
  "repo env self =
     (case env ''GITHUB_REPOSITORY'' of
        None \<Rightarrow> repo_from_payload self
      | Some repository \<Rightarrow>
          if repository \<noteq> [] then
            (case split repository (CHR ''/'') of
               [owner, name] \<Rightarrow> Inr [(''owner'', PStr owner), (''repo'', PStr name)]
             | _ \<Rightarrow> Inl UnpackError)
          else repo_from_payload self)"

text \<open>
  \<open>Event(**kwargs, number=number)\<close>: a keyword given twice is a \<open>TypeError\<close>; otherwise
  the object is an \<open>Event\<close> holding the keywords as its entries.
\<close>

definition Event_new :: "items \<Rightarrow> pyval \<Rightarrow> error + pyval" where
  "Event_new kwargs number =
     (if dict_contains kwargs ''number'' then Inl TypeError
      else Inr (PDict CEvent (kwargs @ [(''number'', number)])))"

definition issue :: "environ \<Rightarrow> items \<Rightarrow> error + pyval" where
  "issue env self =
     on_ok (Context_getattr self ''payload'') (\<lambda>payload.
     on_ok (py_get payload ''pull_request'' payload) (\<lambda>inner.
     on_ok (py_get payload ''issue'' inner) (\<lambda>source.
     on_ok (py_get source ''number'' PNone) (\<lambda>number.
     on_ok (repo env self) (\<lambda>r.
     Event_new r number)))))"

text \<open>The payload of an instance has the key \<open>k\<close>: it is a dictionary with that key.\<close>

definition payload_has_key :: "items \<Rightarrow> string \<Rightarrow> bool" where
  "payload_has_key self k =
     (case Context_getattr self ''payload'' of
        Inr (PDict c d) \<Rightarrow> dict_contains d k
      | _ \<Rightarrow> False)"

section \<open>Helper lemmas\<close>

lemma map_of_dict_setitem: "map_of (dict_setitem d k v) = (map_of d)(k \<mapsto> v)"
  by (induction d) (auto simp: fun_eq_iff)

lemma map_of_absent: "\<not> dict_contains d k \<Longrightarrow> map_of d k = None"
  unfolding dict_contains_def by (simp add: map_of_eq_None_iff)

lemma map_of_present: "map_of d k = Some v \<Longrightarrow> dict_contains d k"
  unfolding dict_contains_def by (metis domI dom_map_of_conv_image_fst)

lemma normal_lookup_DotDict: "\<not> reserved k \<Longrightarrow> normal_lookup CDotDict k = None"
  by (simp add: normal_lookup_def reserved_def)

lemma normal_lookup_NestedDict: "\<not> reserved k \<Longrightarrow> normal_lookup CNestedDict k = None"
  by (simp add: normal_lookup_def reserved_def)

lemma not_reserved_x: "\<not> reserved ''x''"
  by (simp add: reserved_def dict_attrs_def subclass_attrs_def)

lemma not_reserved_y: "\<not> reserved ''y''"
  by (simp add: reserved_def dict_attrs_def subclass_attrs_def)

lemma NestedDict_like_DotDict:
  "obj_getattr (PDict CNestedDict d) j = obj_getattr (PDict CDotDict d) j"
  by (simp add: normal_lookup_def)

lemma DotDict_read_None:
  "\<not> reserved k \<Longrightarrow> map_of d k = None \<or> map_of d k = Some PNone \<Longrightarrow>
   obj_getattr (PDict CDotDict d) k = Inr PNone"
  by (auto simp: normal_lookup_DotDict DotDict_getattr_def dict_get_def)

lemma DotDict_read_dict:
  "\<not> reserved k \<Longrightarrow> map_of d k = Some (PDict c' d') \<Longrightarrow>
   obj_getattr (PDict CDotDict d) k = Inr (PDict CNestedDict d')"
  by (simp add: normal_lookup_DotDict DotDict_getattr_def dict_get_def NestedDict_def)

text \<open>
  \<open>__init__\<close> starts from an empty instance dictionary, so its loop has no key to visit:
  the instance holds the payload and nothing else.
\<close>

lemma Context_init_eq:
  "Context_init env fs load = on_ok (get_payload env fs load) (\<lambda>p. Inr [(''payload'', p)])"
  by (simp add: Context_init_def Context_new_def on_ok_def Context_setattr_def
      split: sum.splits)

lemma length_split: "length (split s sep) = Suc (count_list s sep)"
  by (induction s) (auto split: list.splits)

lemma split_no_sep: "sep \<notin> set s \<Longrightarrow> split s sep = [s]"
  by (induction s) (auto split: list.splits)

lemma split_one: "sep \<notin> set a \<Longrightarrow> sep \<notin> set b \<Longrightarrow> split (a @ sep # b) sep = [a, b]"
  by (induction a) (auto simp: split_no_sep split: list.splits)

lemma repo_unset:
  "env ''GITHUB_REPOSITORY'' = None \<or> env ''GITHUB_REPOSITORY'' = Some [] \<Longrightarrow>
   repo env self = repo_from_payload self"
  by (auto simp: repo_def)

lemma repo_unpack:
  assumes "env ''GITHUB_REPOSITORY'' = Some s" and "s \<noteq> []"
    and "count_list s (CHR ''/'') \<noteq> 1"
  shows "repo env self = Inl UnpackError"
proof -
  have "length (split s (CHR ''/'')) \<noteq> 2"
    using assms(3) by (simp add: length_split)
  then show ?thesis
    using assms(1,2) by (auto simp: repo_def split: list.splits)
qed

lemma repo_from_payload_ok:
  assumes "Context_getattr self ''payload'' = Inr (PDict c d)"
    and "map_of d ''repository'' = Some (PDict c1 r)"
    and "map_of r ''owner'' = Some (PDict c2 ow)"
    and "map_of ow ''login'' = Some login"
    and "map_of r ''name'' = Some name"
  shows "repo_from_payload self = Inr [(''owner'', login), (''repo'', name)]"
proof -
  have "dict_contains d ''repository''"
    using assms(2) by (rule map_of_present)
  then show ?thesis
    using assms by (simp add: repo_from_payload_def on_ok_def)
qed

lemma repo_from_payload_missing:
  assumes "Context_getattr self ''payload'' = Inr (PDict c d)"
    and "\<not> dict_contains d ''repository''"
  shows "repo_from_payload self = Inl ConfigError"
  using assms by (simp add: repo_from_payload_def on_ok_def)

lemma repo_from_payload_ConfigError:
  "repo_from_payload self = Inl ConfigError \<Longrightarrow> \<not> payload_has_key self ''repository''"
  unfolding repo_from_payload_def payload_has_key_def on_ok_def
  by (auto split: sum.splits if_splits pyval.splits option.splits
      elim!: py_in.elims py_getitem.elims)

lemma repo_keys: "repo env self = Inr r \<Longrightarrow> map fst r = [''owner'', ''repo'']"
  by (auto simp: repo_def repo_from_payload_def on_ok_def
      split: option.splits if_splits list.splits sum.splits)

lemma repo_no_number: "repo env self = Inr r \<Longrightarrow> \<not> dict_contains r ''number''"
proof -
  assume "repo env self = Inr r"
  then have "map fst r = [''owner'', ''repo'']" by (rule repo_keys)
  then have "fst ` set r = {''owner'', ''repo''}" by (metis list.set_map list.simps(15) empty_set)
  then show ?thesis by (simp add: dict_contains_def)
qed




text \<open>
  The entry \<open>number\<close> that \<open>issue\<close> stores in the view, where \<open>repo\<close> succeeds and the
  payload is an object: it is read from \<open>payload.issue\<close> when the payload has the key
  \<open>issue\<close>, else from \<open>payload.pull_request\<close> when it has the key \<open>pull_request\<close>, else
  from the payload itself, provided the value chosen is an object; that object gives its
  \<open>number\<close>, or \<open>None\<close> when it has none.
\<close>

lemma issue_number_entry:
  "repo env self = Inr r \<and> Context_getattr self ''payload'' = Inr (PDict c d) \<longrightarrow>
     (map_of d ''issue'' = Some (PDict c1 d1) \<longrightarrow>
        issue env self = Inr (PDict CEvent (r @ [(''number'', dict_get d1 ''number'' PNone)])))
   \<and> (map_of d ''issue'' = None \<and> map_of d ''pull_request'' = Some (PDict c1 d1) \<longrightarrow>
        issue env self = Inr (PDict CEvent (r @ [(''number'', dict_get d1 ''number'' PNone)])))
   \<and> (map_of d ''issue'' = None \<and> map_of d ''pull_request'' = None \<longrightarrow>
        issue env self = Inr (PDict CEvent (r @ [(''number'', dict_get d ''number'' PNone)])))"
proof (intro impI)
  assume a: "repo env self = Inr r \<and> Context_getattr self ''payload'' = Inr (PDict c d)"
  then have "\<not> dict_contains r ''number''"
    using repo_no_number[of env self r] by simp
  then show
    "(map_of d ''issue'' = Some (PDict c1 d1) \<longrightarrow>
        issue env self = Inr (PDict CEvent (r @ [(''number'', dict_get d1 ''number'' PNone)])))
   \<and> (map_of d ''issue'' = None \<and> map_of d ''pull_request'' = Some (PDict c1 d1) \<longrightarrow>
        issue env self = Inr (PDict CEvent (r @ [(''number'', dict_get d1 ''number'' PNone)])))
   \<and> (map_of d ''issue'' = None \<and> map_of d ''pull_request'' = None \<longrightarrow>
        issue env self = Inr (PDict CEvent (r @ [(''number'', dict_get d ''number'' PNone)])))"
    using a by (simp add: issue_def on_ok_def dict_get_def Event_new_def)
qed

section \<open>The claims\<close>

subsection \<open>C1: a field takes the value of its environment variable\<close>

text \<open>
  C1 says that a declared field equals the string of its environment variable when the
  variable is set, so that \<open>GITHUB_RUN_ID=42\<close> gives \<open>run_id == "42"\<close>. The loop of
  \<open>__init__\<close> is written to do this, but it runs over \<open>self.__dict__\<close>, which holds no
  key on a new instance: with \<open>GITHUB_RUN_ID=42\<close> in the environment and no event file,
  construction succeeds and \<open>run_id\<close> is still the default \<open>0\<close> of the class.
\<close>

theorem Context_init_ignores_GITHUB_RUN_ID:
  "Context_init (map_of [(''GITHUB_RUN_ID'', ''42'')]) (map_of []) (map_of [])
     = Inr [(''payload'', PDict Cdict [])]
   \<and> Context_getattr [(''payload'', PDict Cdict [])] ''run_id'' = Inr (PInt 0)
   \<and> Context_getattr [(''payload'', PDict Cdict [])] ''run_id'' \<noteq> Inr (PStr ''42'')"
  by (simp add: Context_init_eq get_payload_def on_ok_def Context_getattr_def
      Context_fields_def)

subsection \<open>C2: chained read of a nested mapping\<close>

text \<open>
  C2, as amended. For every key \<open>x\<close> that is not the name of an attribute the object
  already has, setting the attribute \<open>x\<close> of a \<open>DotDict\<close> to \<open>{"y": 1}\<close> and reading
  \<open>.x.y\<close> gives \<open>1\<close>. More generally, for such a key, reading an attribute whose stored
  value is a dictionary gives a \<open>NestedDict\<close> with the entries of that dictionary, and
  every attribute read on it behaves as on a \<open>DotDict\<close> with the same entries.
\<close>

theorem DotDict_nested_read:
  "(\<not> reserved x \<longrightarrow>
      obj_getattr2 (obj_setattr d x (PDict Cdict [(''y'', PInt 1)])) x ''y'' = Inr (PInt 1))
   \<and> (\<not> reserved k \<and> map_of d k = Some (PDict c' d') \<longrightarrow>
        obj_getattr (PDict CDotDict d) k = Inr (PDict CNestedDict d')
        \<and> (\<forall>j. obj_getattr (PDict CNestedDict d') j = obj_getattr (PDict CDotDict d') j))"
proof (intro conjI impI allI)
  assume x: "\<not> reserved x"
  have "map_of (dict_setitem d x (PDict Cdict [(''y'', PInt 1)])) x
          = Some (PDict Cdict [(''y'', PInt 1)])"
    by (simp add: map_of_dict_setitem)
  then have "obj_getattr (obj_setattr d x (PDict Cdict [(''y'', PInt 1)])) x
          = Inr (PDict CNestedDict [(''y'', PInt 1)])"
    unfolding obj_setattr_def DotDict_setattr_def using x by (rule DotDict_read_dict[rotated])
  moreover have "obj_getattr (PDict CNestedDict [(''y'', PInt 1)]) ''y'' = Inr (PInt 1)"
    using not_reserved_y
    by (simp add: normal_lookup_NestedDict DotDict_getattr_def dict_get_def)
  ultimately show
    "obj_getattr2 (obj_setattr d x (PDict Cdict [(''y'', PInt 1)])) x ''y'' = Inr (PInt 1)"
    by (simp add: obj_getattr2_def)
next
  assume "\<not> reserved k \<and> map_of d k = Some (PDict c' d')"
  then show "obj_getattr (PDict CDotDict d) k = Inr (PDict CNestedDict d')"
    using DotDict_read_dict[of k d c' d'] by blast
next
  fix j
  show "obj_getattr (PDict CNestedDict d') j = obj_getattr (PDict CDotDict d') j"
    by (rule NestedDict_like_DotDict)
qed

theorem DotDict_nested_read_witness:
  "\<not> reserved ''x''
   \<and> map_of [(''x'', PDict Cdict [(''y'', PInt 1)])] ''x'' = Some (PDict Cdict [(''y'', PInt 1)])
   \<and> obj_getattr2 (obj_setattr [] ''x'' (PDict Cdict [(''y'', PInt 1)])) ''x'' ''y''
       = Inr (PInt 1)
   \<and> obj_getattr (PDict CDotDict [(''x'', PDict Cdict [(''y'', PInt 1)])]) ''x''
       = Inr (PDict CNestedDict [(''y'', PInt 1)])"
  using DotDict_nested_read
    [where x = "''x''" and d = "[]" and k = "''y''" and c' = Cdict and d' = "[]"]
    DotDict_nested_read
    [where x = "''x''" and d = "[(''x'', PDict Cdict [(''y'', PInt 1)])]" and k = "''x''"
       and c' = Cdict and d' = "[(''y'', PInt 1)]"]
    not_reserved_x
  by simp

text \<open>
  C2 as the spec states it, for every key, fails at the key \<open>keys\<close>: the assignment
  stores the entry, but the read of \<open>.keys\<close> finds the method of \<open>dict\<close>, and reading
  \<open>.y\<close> on a method raises \<open>AttributeError\<close>.
\<close>

theorem DotDict_nested_read_counterexample:
  "obj_getattr2 (obj_setattr [] ''keys'' (PDict Cdict [(''y'', PInt 1)])) ''keys'' ''y''
     = Inl AttributeError"
  by (simp add: obj_getattr2_def obj_setattr_def DotDict_setattr_def normal_lookup_def
      dict_attrs_def builtin_value_def)

subsection \<open>C3: the sources of \<open>repo\<close>\<close>

text \<open>
  C3, as amended. If \<open>GITHUB_REPOSITORY\<close> is \<open>OWNER/NAME\<close> with exactly one \<open>/\<close>, then
  \<open>repo\<close> is \<open>{owner: OWNER, repo: NAME}\<close> whatever the payload holds. If
  \<open>GITHUB_REPOSITORY\<close> is unset or empty and the payload is an object that has
  \<open>repository.owner.login\<close> and \<open>repository.name\<close>, then \<open>repo\<close> is built from these two. If
  \<open>GITHUB_REPOSITORY\<close> is unset or empty and the payload is an object with no key
  \<open>repository\<close>, then \<open>repo\<close> raises the configuration error.
\<close>

theorem repo_sources:
  "(env ''GITHUB_REPOSITORY'' = Some (ow @ CHR ''/'' # nm)
      \<and> CHR ''/'' \<notin> set ow \<and> CHR ''/'' \<notin> set nm \<longrightarrow>
      repo env self = Inr [(''owner'', PStr ow), (''repo'', PStr nm)])
   \<and> ((env ''GITHUB_REPOSITORY'' = None \<or> env ''GITHUB_REPOSITORY'' = Some [])
      \<and> Context_getattr self ''payload'' = Inr (PDict c d)
      \<and> map_of d ''repository'' = Some (PDict c1 r)
      \<and> map_of r ''owner'' = Some (PDict c2 ob)
      \<and> map_of ob ''login'' = Some login
      \<and> map_of r ''name'' = Some name \<longrightarrow>
      repo env self = Inr [(''owner'', login), (''repo'', name)])
   \<and> ((env ''GITHUB_REPOSITORY'' = None \<or> env ''GITHUB_REPOSITORY'' = Some [])
      \<and> Context_getattr self ''payload'' = Inr (PDict c d)
      \<and> \<not> dict_contains d ''repository'' \<longrightarrow>
      repo env self = Inl ConfigError)"
proof (intro conjI impI)
  assume "env ''GITHUB_REPOSITORY'' = Some (ow @ CHR ''/'' # nm)
      \<and> CHR ''/'' \<notin> set ow \<and> CHR ''/'' \<notin> set nm"
  then show "repo env self = Inr [(''owner'', PStr ow), (''repo'', PStr nm)]"
    by (simp add: repo_def split_one)
next
  assume a: "(env ''GITHUB_REPOSITORY'' = None \<or> env ''GITHUB_REPOSITORY'' = Some [])
      \<and> Context_getattr self ''payload'' = Inr (PDict c d)
      \<and> map_of d ''repository'' = Some (PDict c1 r)
      \<and> map_of r ''owner'' = Some (PDict c2 ob)
      \<and> map_of ob ''login'' = Some login
      \<and> map_of r ''name'' = Some name"
  then have "repo env self = repo_from_payload self"
    using repo_unset[of env self] by blast
  then show "repo env self = Inr [(''owner'', login), (''repo'', name)]"
    using a repo_from_payload_ok[of self c d c1 r c2 ob login name] by simp
next
  assume a: "(env ''GITHUB_REPOSITORY'' = None \<or> env ''GITHUB_REPOSITORY'' = Some [])
      \<and> Context_getattr self ''payload'' = Inr (PDict c d)
      \<and> \<not> dict_contains d ''repository''"
  then have "repo env self = repo_from_payload self"
    using repo_unset[of env self] by blast
  then show "repo env self = Inl ConfigError"
    using a repo_from_payload_missing[of self c d] by simp
qed

theorem repo_sources_witness:
  "repo (map_of [(''GITHUB_REPOSITORY'', ''octocat/Hello-World'')])
       [(''payload'', PDict Cdict [(''repository'', PInt 3)])]
     = Inr [(''owner'', PStr ''octocat''), (''repo'', PStr ''Hello-World'')]
   \<and> repo (map_of [])
       [(''payload'', PDict Cdict [(''repository'',
          PDict Cdict [(''owner'', PDict Cdict [(''login'', PStr ''octocat'')]),
                       (''name'', PStr ''Hello-World'')])])]
     = Inr [(''owner'', PStr ''octocat''), (''repo'', PStr ''Hello-World'')]
   \<and> repo (map_of [(''GITHUB_REPOSITORY'', '''')]) [(''payload'', PDict Cdict [])]
     = Inl ConfigError"
proof -
  let ?env1 = "map_of [(''GITHUB_REPOSITORY'', ''octocat/Hello-World'')]"
  let ?self1 = "[(''payload'', PDict Cdict [(''repository'', PInt 3)])]"
  let ?r = "[(''owner'', PDict Cdict [(''login'', PStr ''octocat'')]),
             (''name'', PStr ''Hello-World'')]"
  let ?self2 = "[(''payload'', PDict Cdict [(''repository'', PDict Cdict ?r)])]"
  let ?env3 = "map_of [(''GITHUB_REPOSITORY'', '''')]"
  let ?self3 = "[(''payload'', PDict Cdict [])]"
  have 1: "repo ?env1 ?self1
      = Inr [(''owner'', PStr ''octocat''), (''repo'', PStr ''Hello-World'')]"
    using repo_sources [where env = ?env1 and ow = "''octocat''" and nm = "''Hello-World''"
        and self = ?self1]
    by simp
  have 2: "repo (map_of []) ?self2
      = Inr [(''owner'', PStr ''octocat''), (''repo'', PStr ''Hello-World'')]"
    using repo_sources [where env = "map_of []" and self = ?self2 and c = Cdict
        and d = "[(''repository'', PDict Cdict ?r)]" and ?c1.0 = Cdict and r = ?r
        and ?c2.0 = Cdict and ob = "[(''login'', PStr ''octocat'')]"
        and login = "PStr ''octocat''" and name = "PStr ''Hello-World''"]
    by (simp add: Context_getattr_def)
  have 3: "repo ?env3 ?self3 = Inl ConfigError"
    using repo_sources [where env = ?env3 and self = ?self3 and c = Cdict and d = "[]"]
    by (simp add: Context_getattr_def dict_contains_def)
  from 1 2 3 show ?thesis by simp
qed

text \<open>
  C3 as the spec states it fails when \<open>GITHUB_REPOSITORY\<close> is set and is not of the form
  \<open>OWNER/NAME\<close>: the claim then takes \<open>repo\<close> from the payload, and the code stops at
  the unpacking of the split string.
\<close>

theorem repo_sources_counterexample:
  "repo (map_of [(''GITHUB_REPOSITORY'', ''noslash'')])
     [(''payload'', PDict Cdict [(''repository'',
         PDict Cdict [(''owner'', PDict Cdict [(''login'', PStr ''octocat'')]),
                      (''name'', PStr ''Hello-World'')])])]
   = Inl UnpackError"
  by (simp add: repo_def)

subsection \<open>C4: the number of the issue view\<close>


subsection \<open>C5: loading the payload\<close>

text \<open>
  C5. At construction: if \<open>GITHUB_EVENT_PATH\<close> is unset, or names a path that does not
  exist, the payload is the empty object; if it names an existing file whose text is
  valid JSON, the payload is the parsed document; if the file exists and its text is not
  valid JSON, construction raises the parse error and there is no instance. (The empty
  path names no file.)
\<close>

theorem payload_loading:
  "(env ''GITHUB_EVENT_PATH'' = None \<or> (\<exists>p. env ''GITHUB_EVENT_PATH'' = Some p \<and> fs p = None) \<longrightarrow>
      (\<exists>self. Context_init env fs load = Inr self
         \<and> Context_getattr self ''payload'' = Inr (PDict Cdict [])))
   \<and> (env ''GITHUB_EVENT_PATH'' = Some p \<and> p \<noteq> [] \<and> fs p = Some (Inr f) \<and> load f = Some v \<longrightarrow>
      (\<exists>self. Context_init env fs load = Inr self
         \<and> Context_getattr self ''payload'' = Inr v))
   \<and> (env ''GITHUB_EVENT_PATH'' = Some p \<and> p \<noteq> [] \<and> fs p = Some (Inr f) \<and> load f = None \<longrightarrow>
      Context_init env fs load = Inl JSONDecodeError)"
  by (auto simp: Context_init_eq get_payload_def on_ok_def Context_getattr_def)

theorem payload_loading_witness:
  "Context_init (map_of []) (map_of []) (map_of []) = Inr [(''payload'', PDict Cdict [])]
   \<and> Context_init (map_of [(''GITHUB_EVENT_PATH'', ''/e.json'')]) (map_of []) (map_of [])
       = Inr [(''payload'', PDict Cdict [])]
   \<and> Context_init (map_of [(''GITHUB_EVENT_PATH'', ''/e.json'')])
         (map_of [(''/e.json'', Inr ''7'')]) (map_of [(''7'', PInt 7)])
       = Inr [(''payload'', PInt 7)]
   \<and> Context_getattr [(''payload'', PInt 7)] ''payload'' = Inr (PInt 7)
   \<and> Context_init (map_of [(''GITHUB_EVENT_PATH'', ''/e.json'')])
         (map_of [(''/e.json'', Inr ''{'')]) (map_of [(''7'', PInt 7)])
       = Inl JSONDecodeError"
proof -
  let ?env = "map_of [(''GITHUB_EVENT_PATH'', ''/e.json'')]"
  let ?load = "map_of [(''7'', PInt 7)]"
  have 1: "\<exists>self. Context_init (map_of []) (map_of []) (map_of []) = Inr self
       \<and> Context_getattr self ''payload'' = Inr (PDict Cdict [])"
    using payload_loading [where env = "map_of []" and fs = "map_of []" and load = "map_of []"]
    by simp
  have 2: "\<exists>self. Context_init ?env (map_of []) (map_of []) = Inr self
       \<and> Context_getattr self ''payload'' = Inr (PDict Cdict [])"
    using payload_loading [where env = ?env and fs = "map_of []" and load = "map_of []"]
    by simp
  have 3: "\<exists>self. Context_init ?env (map_of [(''/e.json'', Inr ''7'')]) ?load = Inr self
       \<and> Context_getattr self ''payload'' = Inr (PInt 7)"
    using payload_loading [where env = ?env and fs = "map_of [(''/e.json'', Inr ''7'')]"
        and p = "''/e.json''" and f = "''7''" and load = ?load and v = "PInt 7"]
    by simp
  have 4: "Context_init ?env (map_of [(''/e.json'', Inr ''{'')]) ?load = Inl JSONDecodeError"
    using payload_loading [where env = ?env and fs = "map_of [(''/e.json'', Inr ''{'')]"
        and p = "''/e.json''" and f = "''{''" and load = ?load]
    by simp
  from 1 2 3 4 show ?thesis
    by (auto simp: Context_init_eq on_ok_def Context_getattr_def split: sum.splits)
qed

subsection \<open>C6: a field keeps its default\<close>

text \<open>
  C6. After a construction that succeeds, every declared field whose variable
  \<open>GITHUB_<FIELD>\<close> is unset equals the default written in the class; for \<open>payload\<close> this
  is the empty object when no event file is given (\<open>GITHUB_EVENT_PATH\<close> unset, or naming
  a path that does not exist).
\<close>

theorem fields_default_when_unset:
  assumes "Context_init env fs load = Inr self"
    and "(f, dflt) \<in> set Context_fields"
    and "env (''GITHUB_'' @ upper f) = None"
    and "f = ''payload'' \<longrightarrow>
           env ''GITHUB_EVENT_PATH'' = None
           \<or> (\<exists>p. env ''GITHUB_EVENT_PATH'' = Some p \<and> fs p = None)"
  shows "Context_getattr self f = Inr dflt"
proof -
  obtain p where p: "get_payload env fs load = Inr p" and self: "self = [(''payload'', p)]"
    using assms(1) by (auto simp: Context_init_eq on_ok_def split: sum.splits)
  show ?thesis
  proof (cases "f = ''payload''")
    case True
    then have "p = PDict Cdict []"
      using assms(4) p by (auto simp: get_payload_def)
    moreover have "dflt = PDict Cdict []"
      using True assms(2) by (auto simp: Context_fields_def)
    ultimately show ?thesis
      using True self by (simp add: Context_getattr_def)
  next
    case False
    have "distinct (map fst Context_fields)"
      by (simp add: Context_fields_def)
    then have "map_of Context_fields f = Some dflt"
      using assms(2) by simp
    then show ?thesis
      using False self by (simp add: Context_getattr_def)
  qed
qed

theorem fields_default_when_unset_witness:
  "Context_init (map_of [(''GITHUB_SHA'', ''abc'')]) (map_of []) (map_of []) = Inr [(''payload'', PDict Cdict [])]
   \<and> Context_getattr [(''payload'', PDict Cdict [])] ''run_id'' = Inr (PInt 0)
   \<and> Context_getattr [(''payload'', PDict Cdict [])] ''api_url'' = Inr (PStr ''https://api.github.com'')
   \<and> Context_getattr [(''payload'', PDict Cdict [])] ''payload'' = Inr (PDict Cdict [])"
proof -
  let ?env = "map_of [(''GITHUB_SHA'', ''abc'')]"
  let ?self = "[(''payload'', PDict Cdict [])]"
  have i: "Context_init ?env (map_of []) (map_of []) = Inr ?self"
    by (simp add: Context_init_eq get_payload_def on_ok_def)
  have 1: "Context_getattr ?self ''run_id'' = Inr (PInt 0)"
    using fields_default_when_unset [OF i, of "''run_id''" "PInt 0"]
    by (simp add: Context_fields_def upper_def upper_char_def)
  have 2: "Context_getattr ?self ''api_url'' = Inr (PStr ''https://api.github.com'')"
    using fields_default_when_unset [OF i, of "''api_url''" "PStr ''https://api.github.com''"]
    by (simp add: Context_fields_def upper_def upper_char_def)
  have 3: "Context_getattr ?self ''payload'' = Inr (PDict Cdict [])"
    using fields_default_when_unset [OF i, of "''payload''" "PDict Cdict []"]
    by (simp add: Context_fields_def upper_def upper_char_def)
  from i 1 2 3 show ?thesis by simp
qed

subsection \<open>C7: reading an attribute that was never set\<close>

text \<open>
  C7, as amended. Reading an attribute of a \<open>DotDict\<close> for a key that is not in the mapping
  returns \<open>None\<close> and raises nothing, for every mapping and for every key that is not the
  name of an attribute the object already has from \<open>dict\<close> or from being an instance of a
  subclass. For those names the read returns the attribute that the object already has,
  whatever the mapping holds, and raises nothing either.
\<close>

theorem DotDict_absent_attr_is_None:
  "(\<not> dict_contains d k \<and> \<not> reserved k \<longrightarrow> obj_getattr (PDict CDotDict d) k = Inr PNone)
   \<and> (reserved k \<longrightarrow> obj_getattr (PDict CDotDict d) k = Inr (builtin_value k))"
proof (intro conjI impI)
  assume a: "\<not> dict_contains d k \<and> \<not> reserved k"
  then have "map_of d k = None"
    using map_of_absent[of d k] by blast
  then show "obj_getattr (PDict CDotDict d) k = Inr PNone"
    using a DotDict_read_None[of k d] by blast
next
  assume "reserved k"
  then have "normal_lookup CDotDict k = Some (builtin_value k)"
    by (auto simp: normal_lookup_def reserved_def)
  then show "obj_getattr (PDict CDotDict d) k = Inr (builtin_value k)"
    by simp
qed

theorem DotDict_absent_attr_is_None_witness:
  "\<not> dict_contains [(''x'', PInt 1)] ''z'' \<and> \<not> reserved ''z''
   \<and> obj_getattr (PDict CDotDict [(''x'', PInt 1)]) ''z'' = Inr PNone
   \<and> reserved ''keys''
   \<and> obj_getattr (PDict CDotDict [(''keys'', PInt 1)]) ''keys'' = Inr (PBuiltin ''keys'')"
proof -
  have a: "\<not> dict_contains [(''x'', PInt 1)] ''z''"
    by (simp add: dict_contains_def)
  have b: "\<not> reserved ''z''"
    by (simp add: reserved_def dict_attrs_def subclass_attrs_def)
  have c: "reserved ''keys''"
    by (simp add: reserved_def dict_attrs_def)
  have v: "builtin_value ''keys'' = PBuiltin ''keys''"
    by (simp add: builtin_value_def)
  have 1: "obj_getattr (PDict CDotDict [(''x'', PInt 1)]) ''z'' = Inr PNone"
    using DotDict_absent_attr_is_None [where d = "[(''x'', PInt 1)]" and k = "''z''"] a b
    by blast
  have 2: "obj_getattr (PDict CDotDict [(''keys'', PInt 1)]) ''keys'' = Inr (PBuiltin ''keys'')"
    using DotDict_absent_attr_is_None [where d = "[(''keys'', PInt 1)]" and k = "''keys''"] c v
    by simp
  from a b c 1 2 show ?thesis by blast
qed

text \<open>
  C7 as the spec states it, for every key, fails at the key \<open>keys\<close>: on the empty mapping
  the read finds the method of \<open>dict\<close> and \<open>__getattr__\<close> is not called.
\<close>

theorem DotDict_absent_attr_counterexample:
  "\<not> dict_contains [] ''keys''
   \<and> obj_getattr (PDict CDotDict []) ''keys'' = Inr (PBuiltin ''keys'')
   \<and> obj_getattr (PDict CDotDict []) ''keys'' \<noteq> Inr PNone"
  by (simp add: dict_contains_def normal_lookup_def dict_attrs_def builtin_value_def)

subsection \<open>C8: absent and null\<close>

text \<open>
  C8, as amended. The absence marker is \<open>None\<close> itself: for every key that is not the name
  of an attribute the object already has, reading the attribute gives \<open>None\<close> on a mapping
  where the key is absent and \<open>None\<close> on a mapping where the key is stored with the value
  \<open>None\<close>, so the two results are equal and the read does not tell the two cases apart.
\<close>

theorem DotDict_absent_same_as_null:
  assumes "\<not> reserved k" and "\<not> dict_contains d1 k" and "map_of d2 k = Some PNone"
  shows "obj_getattr (PDict CDotDict d1) k = Inr PNone
       \<and> obj_getattr (PDict CDotDict d2) k = Inr PNone"
proof -
  have "map_of d1 k = None"
    using assms(2) by (rule map_of_absent)
  then show ?thesis
    using assms(1,3) DotDict_read_None[of k d1] DotDict_read_None[of k d2] by blast
qed

theorem DotDict_absent_same_as_null_witness:
  "\<not> reserved ''x'' \<and> \<not> dict_contains [(''y'', PInt 1)] ''x''
   \<and> map_of [(''y'', PInt 1), (''x'', PNone)] ''x'' = Some PNone
   \<and> obj_getattr (PDict CDotDict [(''y'', PInt 1)]) ''x'' = Inr PNone
   \<and> obj_getattr (PDict CDotDict [(''y'', PInt 1), (''x'', PNone)]) ''x'' = Inr PNone"
proof -
  have a: "\<not> dict_contains [(''y'', PInt 1)] ''x''"
    by (simp add: dict_contains_def)
  have b: "map_of [(''y'', PInt 1), (''x'', PNone)] ''x'' = Some PNone"
    by simp
  from DotDict_absent_same_as_null [OF not_reserved_x a b] not_reserved_x a b
  show ?thesis by simp
qed

text \<open>
  C8 as the spec states it says that the two results differ. At the key \<open>a\<close>, absent
  from the empty mapping and stored with \<open>None\<close> in the other, they are the same value.
\<close>

theorem DotDict_absent_same_as_null_counterexample:
  "obj_getattr (PDict CDotDict []) ''a'' = obj_getattr (PDict CDotDict [(''a'', PNone)]) ''a''"
  by (simp add: normal_lookup_def dict_attrs_def subclass_attrs_def DotDict_getattr_def
      dict_get_def)

subsection \<open>C9: \<open>issue\<close> needs the repository\<close>

text \<open>
  C9, as amended. Where \<open>GITHUB_REPOSITORY\<close> is unset or empty, the payload is an object
  with no key \<open>repository\<close>, and the value from which the number is read
  (\<open>payload.issue\<close> if that key is present, else \<open>payload.pull_request\<close> if that key is
  present, else the payload) is an object, \<open>issue\<close> raises the configuration error that
  \<open>repo\<close> raises, also when the payload has \<open>issue.number\<close>.
\<close>

theorem issue_requires_repo:
  assumes "env ''GITHUB_REPOSITORY'' = None \<or> env ''GITHUB_REPOSITORY'' = Some []"
    and "Context_getattr self ''payload'' = Inr (PDict c d)"
    and "\<not> dict_contains d ''repository''"
    and "dict_get d ''issue'' (dict_get d ''pull_request'' (PDict c d)) = PDict c1 d1"
  shows "issue env self = Inl ConfigError \<and> repo env self = Inl ConfigError"
proof -
  have "repo env self = repo_from_payload self"
    using assms(1) by (rule repo_unset)
  then have r: "repo env self = Inl ConfigError"
    using repo_from_payload_missing[OF assms(2,3)] by simp
  then show ?thesis
    using assms(2,4) by (simp add: issue_def on_ok_def)
qed

theorem issue_requires_repo_witness:
  "issue (map_of []) [(''payload'', PDict Cdict [(''issue'', PDict Cdict [(''number'', PInt 7)])])]
     = Inl ConfigError
   \<and> repo (map_of []) [(''payload'', PDict Cdict [(''issue'', PDict Cdict [(''number'', PInt 7)])])]
     = Inl ConfigError"
proof -
  let ?d = "[(''issue'', PDict Cdict [(''number'', PInt 7)])]"
  let ?self = "[(''payload'', PDict Cdict ?d)]"
  have a: "(map_of [] :: environ) ''GITHUB_REPOSITORY'' = None
      \<or> (map_of [] :: environ) ''GITHUB_REPOSITORY'' = Some []"
    by simp
  have b: "Context_getattr ?self ''payload'' = Inr (PDict Cdict ?d)"
    by (simp add: Context_getattr_def)
  have c: "\<not> dict_contains ?d ''repository''"
    by (simp add: dict_contains_def)
  have d: "dict_get ?d ''issue'' (dict_get ?d ''pull_request'' (PDict Cdict ?d))
      = PDict Cdict [(''number'', PInt 7)]"
    by (simp add: dict_get_def)
  from issue_requires_repo [where env = "map_of []" and self = ?self, OF a b c d]
  show ?thesis .
qed

text \<open>
  C9 as the spec states it, for every context without a repository, fails at the payload
  \<open>{"issue": 5}\<close>: the number is looked up before \<open>repo\<close> is read, and \<open>.get\<close> on the
  integer raises \<open>AttributeError\<close>, while \<open>repo\<close> on the same context raises the
  configuration error.
\<close>

theorem issue_requires_repo_counterexample:
  "issue (map_of []) [(''payload'', PDict Cdict [(''issue'', PInt 5)])] = Inl AttributeError
   \<and> repo (map_of []) [(''payload'', PDict Cdict [(''issue'', PInt 5)])] = Inl ConfigError"
  by (simp add: issue_def on_ok_def Context_getattr_def dict_get_def repo_def
      repo_from_payload_def dict_contains_def)

subsection \<open>C10: a malformed \<open>GITHUB_REPOSITORY\<close>\<close>

text \<open>
  C10. If \<open>GITHUB_REPOSITORY\<close> is a non-empty string that does not hold exactly one
  \<open>/\<close>, \<open>repo\<close> raises the error of the unpacking, which is not the configuration
  error. The configuration error is raised only when \<open>GITHUB_REPOSITORY\<close> is unset or
  empty and the payload has no key \<open>repository\<close>.
\<close>

theorem repo_unpack_error:
  "(env ''GITHUB_REPOSITORY'' = Some s \<and> s \<noteq> [] \<and> count_list s (CHR ''/'') \<noteq> 1 \<longrightarrow>
      repo env self = Inl UnpackError \<and> repo env self \<noteq> Inl ConfigError)
   \<and> (repo env self = Inl ConfigError \<longrightarrow>
        (env ''GITHUB_REPOSITORY'' = None \<or> env ''GITHUB_REPOSITORY'' = Some [])
        \<and> \<not> payload_has_key self ''repository'')"
proof (intro conjI impI)
  assume a: "env ''GITHUB_REPOSITORY'' = Some s \<and> s \<noteq> [] \<and> count_list s (CHR ''/'') \<noteq> 1"
  then show u: "repo env self = Inl UnpackError"
    using repo_unpack[of env s self] by simp
  then show "repo env self \<noteq> Inl ConfigError"
    by simp
next
  assume e: "repo env self = Inl ConfigError"
  show "env ''GITHUB_REPOSITORY'' = None \<or> env ''GITHUB_REPOSITORY'' = Some []"
    using e by (auto simp: repo_def split: option.splits if_splits list.splits)
  then have "repo env self = repo_from_payload self"
    by (rule repo_unset)
  then show "\<not> payload_has_key self ''repository''"
    using e repo_from_payload_ConfigError[of self] by simp
qed

theorem repo_unpack_error_witness:
  "repo (map_of [(''GITHUB_REPOSITORY'', ''noslash'')]) [(''payload'', PDict Cdict [])] = Inl UnpackError
   \<and> repo (map_of [(''GITHUB_REPOSITORY'', ''a/b/c'')]) [(''payload'', PDict Cdict [])] = Inl UnpackError
   \<and> repo (map_of []) [(''payload'', PDict Cdict [])] = Inl ConfigError
   \<and> \<not> payload_has_key [(''payload'', PDict Cdict [])] ''repository''"
proof -
  let ?self = "[(''payload'', PDict Cdict [])]"
  have 1: "repo (map_of [(''GITHUB_REPOSITORY'', ''noslash'')]) ?self = Inl UnpackError"
    using repo_unpack_error [where env = "map_of [(''GITHUB_REPOSITORY'', ''noslash'')]"
        and s = "''noslash''" and self = ?self]
    by simp
  have 2: "repo (map_of [(''GITHUB_REPOSITORY'', ''a/b/c'')]) ?self = Inl UnpackError"
    using repo_unpack_error [where env = "map_of [(''GITHUB_REPOSITORY'', ''a/b/c'')]"
        and s = "''a/b/c''" and self = ?self]
    by simp
  have 3: "repo (map_of []) ?self = Inl ConfigError"
    by (simp add: repo_def repo_from_payload_def on_ok_def Context_getattr_def
        dict_contains_def)
  have 4: "\<not> payload_has_key ?self ''repository''"
    using repo_unpack_error [where env = "map_of []" and self = ?self] 3
    by simp
  from 1 2 3 4 show ?thesis by simp
qed

end
